theory Spec2Isabelle
  imports Main
begin

section \<open>Text as code points, and the character tables of the runtime\<close>

text \<open>
  A Python \<open>str\<close> is a sequence of Unicode code points, and \<open>len\<close> counts code points.
  The placeholder delimiter of \<open>spellfix.py\<close> is U+E000, which no 8-bit character type
  holds, so text is a list of code points. \<open>asc\<close> reads an ASCII literal.
\<close>

type_synonym ustr = "nat list"

definition cp :: "char \<Rightarrow> nat" where
  "cp c = of_char c"

definition asc :: "string \<Rightarrow> ustr" where
  "asc s = map cp s"

text \<open>
  The regular expressions and \<open>str.lower\<close> consult the Unicode tables of the Python
  runtime. For ASCII the tables are written out below. For the private use area
  (U+E000 to U+F8FF, general category Co) every table is empty: no such code point is
  white space, a digit, alphanumeric or cased. For every other code point the tables are
  a parameter \<open>T\<close> of the model, and \<open>ulower\<close> is \<open>str.lower\<close> as a whole (it is not a
  map over code points: the lower case of a capital sigma depends on its position).
\<close>

record tables =
  uspace :: "nat \<Rightarrow> bool"
  ualnum :: "nat \<Rightarrow> bool"
  udigit :: "nat \<Rightarrow> bool"
  ufold :: "nat \<Rightarrow> nat list"
  ulower :: "ustr \<Rightarrow> ustr"

definition private_use :: "nat \<Rightarrow> bool" where
  "private_use c = (57344 \<le> c \<and> c \<le> 63743)"

definition is_space :: "tables \<Rightarrow> nat \<Rightarrow> bool" where
  "is_space T c =
     (if c < 128 then (9 \<le> c \<and> c \<le> 13) \<or> (28 \<le> c \<and> c \<le> 32)
      else \<not> private_use c \<and> uspace T c)"

definition is_digit :: "tables \<Rightarrow> nat \<Rightarrow> bool" where
  "is_digit T c =
     (if c < 128 then 48 \<le> c \<and> c \<le> 57 else \<not> private_use c \<and> udigit T c)"

definition is_word :: "tables \<Rightarrow> nat \<Rightarrow> bool" where
  "is_word T c =
     (if c < 128
      then (48 \<le> c \<and> c \<le> 57) \<or> (65 \<le> c \<and> c \<le> 90) \<or> c = 95 \<or> (97 \<le> c \<and> c \<le> 122)
      else \<not> private_use c \<and> ualnum T c)"

text \<open>
  Under \<open>re.IGNORECASE\<close> a character also matches through its case variants: the other
  case of an ASCII letter, and for a code point beyond ASCII whatever the runtime folds
  it to (the long s to \<open>s\<close>, the Kelvin sign to \<open>k\<close>).
\<close>

definition variants :: "tables \<Rightarrow> nat \<Rightarrow> nat list" where
  "variants T c =
     (if 65 \<le> c \<and> c \<le> 90 then [c + 32]
      else if 97 \<le> c \<and> c \<le> 122 then [c - 32]
      else if c < 128 \<or> private_use c then []
      else ufold T c)"

text \<open>A table for running the model on ASCII text: nothing beyond ASCII is classified.\<close>

definition ascii_lower :: "ustr \<Rightarrow> ustr" where
  "ascii_lower s = map (\<lambda>c. if 65 \<le> c \<and> c \<le> 90 then c + 32 else c) s"

definition ascii_tables :: tables where
  "ascii_tables =
     \<lparr>uspace = (\<lambda>_. False), ualnum = (\<lambda>_. False), udigit = (\<lambda>_. False),
      ufold = (\<lambda>_. []), ulower = ascii_lower\<rparr>"

section \<open>Regular expressions: a backtracking matcher\<close>

text \<open>
  The constructs that the patterns of \<open>spellfix.py\<close> use. A character class is a list of
  items; \<open>Rep m n r\<close> is the greedy \<open>r{m,n}\<close> (\<open>None\<close>: no upper bound); \<open>Grp k r\<close> is
  the capturing group number \<open>k\<close>; \<open>NotBehind its\<close> is \<open>(?<![its])\<close>; \<open>Bos\<close> is \<open>^\<close>
  without \<open>re.MULTILINE\<close>.
\<close>

datatype item = Ch nat | Rng nat nat | CSpace | CWord | CDigit

fun in_item :: "tables \<Rightarrow> item \<Rightarrow> nat \<Rightarrow> bool" where
  "in_item T (Ch a) c = (c = a)"
| "in_item T (Rng a b) c = (a \<le> c \<and> c \<le> b)"
| "in_item T CSpace c = is_space T c"
| "in_item T CWord c = is_word T c"
| "in_item T CDigit c = is_digit T c"

definition memb :: "tables \<Rightarrow> bool \<Rightarrow> item list \<Rightarrow> nat \<Rightarrow> bool" where
  "memb T ic its c =
     list_ex (\<lambda>x. list_ex (\<lambda>it. in_item T it x) its) (c # (if ic then variants T c else []))"

datatype re =
    Set "item list"
  | NSet "item list"
  | AnyCh
  | Cat re re
  | Alt re re
  | Rep nat "nat option" re
  | Grp nat re
  | WordB
  | NotWordB
  | Look re
  | NotLook re
  | NotBehind "item list"
  | Bos

abbreviation Star :: "re \<Rightarrow> re" where
  "Star r \<equiv> Rep 0 None r"

abbreviation Plus :: "re \<Rightarrow> re" where
  "Plus r \<equiv> Rep 1 None r"

abbreviation Opt :: "re \<Rightarrow> re" where
  "Opt r \<equiv> Rep 0 (Some 1) r"

abbreviation Eps :: re where
  "Eps \<equiv> Rep 0 (Some 0) AnyCh"

fun seq :: "re list \<Rightarrow> re" where
  "seq [] = Eps"
| "seq [r] = r"
| "seq (r # rs) = Cat r (seq rs)"

fun alt_of :: "re list \<Rightarrow> re" where
  "alt_of [] = NSet [Rng 0 1114111]"
| "alt_of [r] = r"
| "alt_of (r # rs) = Alt r (alt_of rs)"

definition lit :: "ustr \<Rightarrow> re" where
  "lit s = seq (map (\<lambda>c. Set [Ch c]) s)"

text \<open>
  A matcher state is the character before the current position (for \<open>\b\<close> and the
  lookbehind), the text from the current position on, and the groups captured so far.
  \<open>ends r st\<close> lists the states in which a match of \<open>r\<close> from \<open>st\<close> can end, in the
  order in which the backtracking matcher of \<open>re\<close> tries them: the first is the match
  it reports. An iteration of a repeat that consumes nothing is not repeated.
\<close>

type_synonym mstate = "nat option \<times> ustr \<times> (nat \<Rightarrow> ustr)"

fun rsz :: "re \<Rightarrow> nat" where
  "rsz (Cat a b) = Suc (rsz a + rsz b)"
| "rsz (Alt a b) = Suc (rsz a + rsz b)"
| "rsz (Rep m n r) = Suc (rsz r)"
| "rsz (Grp k r) = Suc (rsz r)"
| "rsz (Look r) = Suc (rsz r)"
| "rsz (NotLook r) = Suc (rsz r)"
| "rsz _ = 0"

definition word_opt :: "tables \<Rightarrow> nat option \<Rightarrow> bool" where
  "word_opt T p = (case p of None \<Rightarrow> False | Some c \<Rightarrow> is_word T c)"

definition at_boundary :: "tables \<Rightarrow> nat option \<Rightarrow> ustr \<Rightarrow> bool" where
  "at_boundary T p s =
     (word_opt T p \<noteq> word_opt T (case s of [] \<Rightarrow> None | c # _ \<Rightarrow> Some c))"

function ends :: "tables \<Rightarrow> bool \<Rightarrow> re \<Rightarrow> mstate \<Rightarrow> mstate list" where
  "ends T ic (Set its) (p, s, g) =
     (case s of [] \<Rightarrow> [] | c # cs \<Rightarrow> if memb T ic its c then [(Some c, cs, g)] else [])"
| "ends T ic (NSet its) (p, s, g) =
     (case s of [] \<Rightarrow> [] | c # cs \<Rightarrow> if memb T ic its c then [] else [(Some c, cs, g)])"
| "ends T ic AnyCh (p, s, g) =
     (case s of [] \<Rightarrow> [] | c # cs \<Rightarrow> if c = 10 then [] else [(Some c, cs, g)])"
| "ends T ic (Cat a b) (p, s, g) = concat (map (ends T ic b) (ends T ic a (p, s, g)))"
| "ends T ic (Alt a b) (p, s, g) = ends T ic a (p, s, g) @ ends T ic b (p, s, g)"
| "ends T ic (Rep m n r) (p, s, g) =
     (if n = Some 0 then [(p, s, g)]
      else concat (map (\<lambda>st. if length (fst (snd st)) < length s
                              then ends T ic (Rep (m - 1) (map_option (\<lambda>k. k - 1) n) r) st
                              else [])
                       (ends T ic r (p, s, g)))
           @ (if m = 0 then [(p, s, g)] else []))"
| "ends T ic (Grp k r) (p, s, g) =
     map (\<lambda>(p', s', g'). (p', s', g'(k := take (length s - length s') s)))
         (ends T ic r (p, s, g))"
| "ends T ic WordB (p, s, g) = (if at_boundary T p s then [(p, s, g)] else [])"
| "ends T ic NotWordB (p, s, g) = (if at_boundary T p s then [] else [(p, s, g)])"
| "ends T ic (Look r) (p, s, g) =
     (case ends T ic r (p, s, g) of [] \<Rightarrow> [] | _ # _ \<Rightarrow> [(p, s, g)])"
| "ends T ic (NotLook r) (p, s, g) =
     (case ends T ic r (p, s, g) of [] \<Rightarrow> [(p, s, g)] | _ # _ \<Rightarrow> [])"
| "ends T ic (NotBehind its) (p, s, g) =
     (case p of None \<Rightarrow> [(p, s, g)]
      | Some c \<Rightarrow> if memb T ic its c then [] else [(p, s, g)])"
| "ends T ic Bos (p, s, g) = (if p = None then [(p, s, g)] else [])"
  by pat_completeness auto
termination
  by (relation "inv_image (less_than <*lex*> less_than)
        (\<lambda>(T, ic, r, st). (rsz r, length (fst (snd st))))") auto

text \<open>
  A compiled pattern is its flag \<open>re.IGNORECASE\<close> and its expression. \<open>finditer\<close> scans
  the text from left to right as \<open>Pattern.sub\<close> and \<open>re.split\<close> do: at each position
  the first match, if any, is taken and the scan goes on after it; otherwise the
  character is passed over. The result is the text cut into unmatched characters and
  matches, a match being its groups (group 0 the whole match). Every pattern of the
  program consumes at least one character where it matches, so the scan does not say
  what \<open>re\<close> does with an empty match: it passes over the character.
\<close>

type_synonym pattern = "bool \<times> re"

datatype tok = Txt nat | Mt "nat \<Rightarrow> ustr"

function finditer :: "tables \<Rightarrow> pattern \<Rightarrow> nat option \<Rightarrow> ustr \<Rightarrow> tok list" where
  "finditer T pat p [] = []"
| "finditer T pat p (c # cs) =
     (case ends T (fst pat) (snd pat) (p, c # cs, \<lambda>_. []) of
        [] \<Rightarrow> Txt c # finditer T pat (Some c) cs
      | (p', s', g) # _ \<Rightarrow>
          if length s' < length (c # cs)
          then Mt (g(0 := take (length (c # cs) - length s') (c # cs))) # finditer T pat p' s'
          else Txt c # finditer T pat (Some c) cs)"
  by pat_completeness auto
termination
  by (relation "measure (\<lambda>(T, pat, p, s). length s)") auto

text \<open>\<open>Pattern.sub(repl, text)\<close> with a template or a pure function \<open>repl\<close>.\<close>

definition re_sub :: "tables \<Rightarrow> pattern \<Rightarrow> ((nat \<Rightarrow> ustr) \<Rightarrow> ustr) \<Rightarrow> ustr \<Rightarrow> ustr" where
  "re_sub T pat repl text =
     concat (map (\<lambda>t. case t of Txt c \<Rightarrow> [c] | Mt g \<Rightarrow> repl g) (finditer T pat None text))"

text \<open>
  \<open>Pattern.sub(repl, text)\<close> with a function \<open>repl\<close> that has effects: it is called once
  per match, from left to right, and the state goes from one call to the next.
\<close>

fun sub_toks :: "((nat \<Rightarrow> ustr) \<Rightarrow> 'a \<Rightarrow> ustr \<times> 'a) \<Rightarrow> tok list \<Rightarrow> 'a \<Rightarrow> ustr \<times> 'a" where
  "sub_toks repl [] st = ([], st)"
| "sub_toks repl (Txt c # ts) st =
     (let (out, st') = sub_toks repl ts st in (c # out, st'))"
| "sub_toks repl (Mt g # ts) st =
     (let (r, st1) = repl g st; (out, st2) = sub_toks repl ts st1 in (r @ out, st2))"

definition re_sub_st ::
  "tables \<Rightarrow> pattern \<Rightarrow> ((nat \<Rightarrow> ustr) \<Rightarrow> 'a \<Rightarrow> ustr \<times> 'a) \<Rightarrow> ustr \<Rightarrow> 'a \<Rightarrow> ustr \<times> 'a" where
  "re_sub_st T pat repl text st = sub_toks repl (finditer T pat None text) st"

text \<open>
  \<open>re.split\<close> for a pattern that is one capturing group: the pieces between the matches,
  with group 1 of each match between them.
\<close>

fun split_toks :: "tok list \<Rightarrow> ustr \<Rightarrow> ustr list" where
  "split_toks [] cur = [cur]"
| "split_toks (Txt c # ts) cur = split_toks ts (cur @ [c])"
| "split_toks (Mt g # ts) cur = cur # g 1 # split_toks ts []"

definition re_split :: "tables \<Rightarrow> pattern \<Rightarrow> ustr \<Rightarrow> ustr list" where
  "re_split T pat text = split_toks (finditer T pat None text) []"

text \<open>\<open>str.replace(old, new)\<close>: every occurrence of \<open>old\<close>, from the left, without overlap.\<close>

function str_replace :: "ustr \<Rightarrow> ustr \<Rightarrow> ustr \<Rightarrow> ustr" where
  "str_replace old new s =
     (if old = [] then new @ concat (map (\<lambda>c. c # new) s)
      else if take (length old) s = old then new @ str_replace old new (drop (length old) s)
      else case s of [] \<Rightarrow> [] | c # cs \<Rightarrow> c # str_replace old new cs)"
  by pat_completeness auto
termination
proof (relation "measure (\<lambda>(old, new, s). length s)")
  fix old new s :: ustr
  assume "old \<noteq> []" and "take (length old) s = old"
  then have "s \<noteq> []" and "0 < length old"
    by auto
  then show "((old, new, drop (length old) s), (old, new, s)) \<in> measure (\<lambda>(old, new, s). length s)"
    by simp
qed auto

text \<open>\<open>str(n)\<close> for a natural number: its decimal digits.\<close>

function dec :: "nat \<Rightarrow> ustr" where
  "dec n = (if n < 10 then [48 + n] else dec (n div 10) @ [48 + n mod 10])"
  by pat_completeness auto
termination
  by (relation "measure id") auto

section \<open>The patterns of the program\<close>

abbreviation az :: item where "az \<equiv> Rng (cp CHR ''a'') (cp CHR ''z'')"
abbreviation AZ :: item where "AZ \<equiv> Rng (cp CHR ''A'') (cp CHR ''Z'')"
abbreviation d09 :: item where "d09 \<equiv> Rng (cp CHR ''0'') (cp CHR ''9'')"
abbreviation chi :: "char \<Rightarrow> item" where "chi c \<equiv> Ch (cp c)"
abbreviation one :: "char \<Rightarrow> re" where "one c \<equiv> Set [Ch (cp c)]"

definition BRANDS :: "ustr list" where
  "BRANDS = [asc ''SpellFix'']"

definition BRAND_RE :: pattern where
  "BRAND_RE = (True, seq [WordB, alt_of (map lit BRANDS), WordB])"

definition URL_RE :: pattern where
  "URL_RE = (True,
     seq [WordB,
          alt_of [seq [lit (asc ''http''), Opt (one CHR ''s''), lit (asc ''://'')],
                  lit (asc ''ftp://''),
                  lit (asc ''www.'')],
          Plus (NSet [CSpace, chi CHR ''<'', chi CHR ''>'', chi CHR ''('', chi CHR '')'', Ch 34])])"

definition EMAIL_RE :: pattern where
  "EMAIL_RE = (True,
     seq [WordB,
          Plus (Set [AZ, d09, chi CHR ''.'', chi CHR ''_'', chi CHR ''%'', chi CHR ''+'', chi CHR ''-'']),
          one CHR ''@'',
          Plus (Set [AZ, d09, chi CHR ''.'', chi CHR ''-'']),
          one CHR ''.'',
          Rep 2 None (Set [AZ]),
          WordB])"

definition CAMEL_RE :: pattern where
  "CAMEL_RE = (False,
     seq [WordB, Plus (Set [az]), Set [AZ], Star (Set [AZ, az, d09]), WordB])"

definition SNAKE_RE :: pattern where
  "SNAKE_RE = (False,
     seq [WordB, Plus (Set [AZ, az, d09]),
          Plus (seq [one CHR ''_'', Plus (Set [AZ, az, d09])]), WordB])"

definition KEBAB_RE :: pattern where
  "KEBAB_RE = (False,
     seq [WordB, Plus (Set [AZ, az, d09]),
          Plus (seq [one CHR ''-'', Plus (Set [AZ, az, d09])]), WordB])"

definition DOT_IDENT_RE :: pattern where
  "DOT_IDENT_RE = (False,
     seq [WordB,
          Look (Set [AZ, az, chi CHR ''_'']),
          Plus (seq [Set [AZ, az, chi CHR ''_''], Star (Set [AZ, az, d09, chi CHR ''_'']),
                     one CHR ''.'']),
          Set [AZ, az, chi CHR ''_''], Star (Set [AZ, az, d09, chi CHR ''_'']),
          WordB,
          Look (seq [Star AnyCh, Set [chi CHR ''_'', d09, AZ]])])"

definition PATH_RE :: pattern where
  "PATH_RE = (False,
     Alt (seq [Alt (one CHR ''~'') (one CHR ''/''), Plus (NSet [CSpace])])
         (seq [Set [AZ, az], one CHR '':'', Set [Ch 92], Plus (NSet [CSpace])]))"

definition FLAG_RE :: pattern where
  "FLAG_RE = (False,
     seq [NotWordB, one CHR ''-'', Opt (one CHR ''-''), Set [AZ, az],
          Star (Set [AZ, az, d09, chi CHR ''-'']), WordB])"

abbreviation punct :: "item list" where
  "punct \<equiv> [chi CHR '','', chi CHR ''.'', chi CHR '';'', chi CHR '':'', chi CHR ''!'', chi CHR ''?'']"

definition MULTISPACE_RE :: pattern where
  "MULTISPACE_RE = (False, Rep 2 None (Set [chi CHR '' '', Ch 9]))"

definition SPACE_BEFORE_PUNCT_RE :: pattern where
  "SPACE_BEFORE_PUNCT_RE = (False, seq [Plus (Set [CSpace]), Grp 1 (Set punct)])"

definition SPACE_AFTER_PUNCT_RE :: pattern where
  "SPACE_AFTER_PUNCT_RE = (False, seq [Grp 1 (Set punct), Grp 2 (Set [AZ, az, d09])])"

definition ELLIPSIS_RE :: pattern where
  "ELLIPSIS_RE = (False,
     seq [one CHR ''.'', Star (Set [CSpace]), one CHR ''.'', Star (Set [CSpace]), one CHR ''.''])"

definition SPACE_AFTER_DOT_RE :: pattern where
  "SPACE_AFTER_DOT_RE = (False, seq [Grp 1 (one CHR ''.''), Grp 2 (Set [AZ, az])])"

definition TLDS :: "ustr list" where
  "TLDS = map asc [''com'', ''net'', ''org'', ''io'', ''co'', ''ai'', ''app'', ''dev'', ''gov'',
     ''edu'', ''me'', ''gg'', ''tv'', ''fm'', ''hk'', ''tw'', ''jp'', ''sg'', ''kr'', ''cn'', ''uk'',
     ''de'', ''fr'', ''it'', ''es'', ''nl'', ''se'', ''no'', ''fi'']"

definition DOMAIN_LIKE_RE :: pattern where
  "DOMAIN_LIKE_RE = (True,
     seq [WordB, Plus (Set [AZ, az, d09, chi CHR ''-'']), one CHR ''.'',
          alt_of (map lit TLDS), WordB])"

definition IP_RE :: pattern where
  "IP_RE = (False,
     seq [WordB, Rep 3 (Some 3) (seq [Rep 1 (Some 3) (Set [CDigit]), one CHR ''.'']),
          Rep 1 (Some 3) (Set [CDigit]), WordB])"

definition VERSION_RE :: pattern where
  "VERSION_RE = (False,
     seq [WordB, Plus (Set [CDigit]), Rep 1 None (seq [one CHR ''.'', Plus (Set [CDigit])]),
          WordB])"

definition ABBREV_RE :: pattern where
  "ABBREV_RE = (False, seq [WordB, Rep 2 None (seq [Set [AZ, az], one CHR ''.'']), WordB])"

definition PROSE_DOT_JOIN_RE :: pattern where
  "PROSE_DOT_JOIN_RE = (False,
     seq [NotBehind [CWord], Grp 1 (Rep 2 None (Set [AZ, az])), one CHR ''.'',
          Grp 2 (Rep 2 None (Set [AZ, az])), NotLook (Set [CWord])])"

definition PLACEHOLDER_FMT :: "nat \<Rightarrow> ustr" where
  "PLACEHOLDER_FMT n = [57344] @ dec n @ [57344]"

section \<open>Protection and restoration\<close>

text \<open>
  The dictionary \<open>protected\<close> keeps its keys in insertion order, and \<open>unprotect\<close>
  iterates in that order: an association list, where assigning to a key that is
  present keeps its place.
\<close>

type_synonym dict = "(ustr \<times> ustr) list"

definition dict_set :: "ustr \<Rightarrow> ustr \<Rightarrow> dict \<Rightarrow> dict" where
  "dict_set k v d =
     (if k \<in> fst ` set d then map (\<lambda>(k', v'). if k' = k then (k', v) else (k', v')) d
      else d @ [(k, v)])"

text \<open>The inner function \<open>repl\<close> of \<open>protect\<close>; its state is \<open>protected\<close> and \<open>n\<close>.\<close>

definition repl :: "(nat \<Rightarrow> ustr) \<Rightarrow> dict \<times> nat \<Rightarrow> ustr \<times> (dict \<times> nat)" where
  "repl m st =
     (let key = PLACEHOLDER_FMT (snd st)
      in (key, (dict_set key (m 0) (fst st), snd st + 1)))"

definition sub :: "tables \<Rightarrow> pattern \<Rightarrow> ustr \<times> (dict \<times> nat) \<Rightarrow> ustr \<times> (dict \<times> nat)" where
  "sub T pat ts = re_sub_st T pat repl (fst ts) (snd ts)"

definition protect :: "tables \<Rightarrow> ustr \<Rightarrow> ustr \<times> dict" where
  "protect T text =
     (let ts = sub T BRAND_RE (text, ([], 0));
          ts = fold (sub T)
                 [URL_RE, EMAIL_RE, PATH_RE, FLAG_RE, DOT_IDENT_RE, CAMEL_RE, SNAKE_RE, KEBAB_RE]
                 ts
      in (fst ts, fst (snd ts)))"

definition unprotect :: "ustr \<Rightarrow> dict \<Rightarrow> ustr" where
  "unprotect text protected = fold (\<lambda>(k, v) t. str_replace k v t) protected text"

section \<open>Local rewriting\<close>

definition fix_dot_joined_words :: "tables \<Rightarrow> ustr \<Rightarrow> ustr" where
  "fix_dot_joined_words T text =
     ((re_sub T PROSE_DOT_JOIN_RE (\<lambda>g. g 1 @ asc '' '' @ g 2)) ^^ 8) text"

definition safe_spacing_cleanup :: "tables \<Rightarrow> ustr \<Rightarrow> ustr" where
  "safe_spacing_cleanup T text =
     (let text = re_sub T ELLIPSIS_RE (\<lambda>g. asc ''...'') text;
          text = re_sub T SPACE_BEFORE_PUNCT_RE (\<lambda>g. g 1) text;
          text = re_sub T SPACE_AFTER_PUNCT_RE (\<lambda>g. g 1 @ asc '' '' @ g 2) text;
          text = re_sub T SPACE_AFTER_DOT_RE (\<lambda>g. g 1 @ asc '' '' @ g 2) text;
          text = re_sub T MULTISPACE_RE (\<lambda>g. asc '' '') text
      in text)"

text \<open>
  \<open>iphone_like_caps\<close> calls \<open>str.upper\<close> only on a group that matched \<open>[a-z]\<close>: there it
  is the ASCII upper case.
\<close>

definition ascii_upper :: "ustr \<Rightarrow> ustr" where
  "ascii_upper s = map (\<lambda>c. if 97 \<le> c \<and> c \<le> 122 then c - 32 else c) s"

definition iphone_like_caps :: "tables \<Rightarrow> ustr \<Rightarrow> ustr" where
  "iphone_like_caps T text =
     (let text = re_sub T (False, seq [NotBehind [AZ, az], one CHR ''i'', NotLook (Set [AZ, az])])
                   (\<lambda>g. asc ''I'') text;
          text = re_sub T (False, seq [Grp 1 (Set [chi CHR ''.'', chi CHR ''!'', chi CHR ''?'']),
                                       Grp 2 (Plus (Set [CSpace])), Grp 3 (Set [az])])
                   (\<lambda>m. m 1 @ m 2 @ ascii_upper (m 3)) text;
          text = re_sub T (False, seq [Grp 1 (Alt Bos (seq [Set [Ch 10], Star (Set [CSpace]), Set [Ch 10]])),
                                       Grp 2 (Set [az])])
                   (\<lambda>m. m 1 @ ascii_upper (m 2)) text
      in text)"

definition normalize_brands :: "tables \<Rightarrow> ustr \<Rightarrow> ustr" where
  "normalize_brands T text =
     fold (\<lambda>b t. re_sub T (True, seq [WordB, lit b, WordB]) (\<lambda>g. b) t) BRANDS text"

section \<open>Applying the corrections of the grammar service\<close>

text \<open>
  A match record of the service, as far as \<open>apply_misspellings_only\<close> reads it:
  \<open>issueType\<close> is \<open>m.get("rule", {}).get("issueType")\<close>; \<open>replacements\<close> is
  \<open>m.get("replacements") or []\<close>, each entry being its \<open>"value"\<close> if it has one;
  \<open>offset\<close> and \<open>mlength\<close> are \<open>m["offset"]\<close> and \<open>m["length"]\<close> if the record has
  them. Reading a key that is absent raises \<open>KeyError\<close>. The integers of Python are
  unbounded.
\<close>

record lt_match =
  issueType :: "ustr option"
  replacements :: "ustr option list"
  offset :: "int option"
  mlength :: "int option"

datatype error = KeyError ustr | ServiceError ustr

text \<open>
  Slicing never raises: a negative bound counts from the end, and a bound outside the
  text is clamped to it.
\<close>

definition py_bound :: "nat \<Rightarrow> int \<Rightarrow> nat" where
  "py_bound n i = (if i < 0 then nat (max 0 (i + int n)) else min n (nat i))"

definition slice :: "ustr \<Rightarrow> int \<Rightarrow> int \<Rightarrow> ustr" where
  "slice s a b = take (py_bound (length s) b - py_bound (length s) a) (drop (py_bound (length s) a) s)"

definition slice_to :: "ustr \<Rightarrow> int \<Rightarrow> ustr" where
  "slice_to s b = take (py_bound (length s) b) s"

definition slice_from :: "ustr \<Rightarrow> int \<Rightarrow> ustr" where
  "slice_from s a = drop (py_bound (length s) a) s"

text \<open>The body of the loop of \<open>apply_misspellings_only\<close>, on the state \<open>(text, shift)\<close>.\<close>

definition apply_match :: "tables \<Rightarrow> ustr \<times> int \<Rightarrow> lt_match \<Rightarrow> error + ustr \<times> int" where
  "apply_match T st m =
     (let text = fst st; shift = snd st in
      if issueType m \<noteq> Some (asc ''misspelling'') then Inr (text, shift)
      else case replacements m of
        [] \<Rightarrow> Inr (text, shift)
      | r0 # _ \<Rightarrow>
         (case offset m of
            None \<Rightarrow> Inl (KeyError (asc ''offset''))
          | Some off \<Rightarrow>
             (case mlength m of
                None \<Rightarrow> Inl (KeyError (asc ''length''))
              | Some len \<Rightarrow>
                 (case r0 of
                    None \<Rightarrow> Inl (KeyError (asc ''value''))
                  | Some replacement \<Rightarrow>
                     (let start = off + shift; end' = start + len in
                      if 57344 \<in> set (slice text start end') then Inr (text, shift)
                      else let orig = slice text start end' in
                        if ulower T orig = ulower T replacement \<and> orig \<noteq> replacement
                        then Inr (text, shift)
                        else Inr (slice_to text start @ replacement @ slice_from text end',
                                  shift + int (length replacement) - len))))))"

fun apply_loop :: "tables \<Rightarrow> ustr \<times> int \<Rightarrow> lt_match list \<Rightarrow> error + ustr" where
  "apply_loop T st [] = Inr (fst st)"
| "apply_loop T st (m # ms) =
     (case apply_match T st m of Inl e \<Rightarrow> Inl e | Inr st' \<Rightarrow> apply_loop T st' ms)"

definition apply_misspellings_only :: "tables \<Rightarrow> ustr \<Rightarrow> lt_match list \<Rightarrow> error + ustr" where
  "apply_misspellings_only T text matches = apply_loop T (text, 0) matches"


section \<open>Chunking\<close>

text \<open>\<open>MAX_CHUNK_CHARS\<close> is read from the environment: a parameter \<open>mx\<close>, any integer.\<close>

definition PARA_SPLIT_RE :: pattern where
  "PARA_SPLIT_RE = (False, Grp 1 (seq [Set [Ch 10], Star (Set [CSpace]), Set [Ch 10]]))"

fun chunk_loop :: "int \<Rightarrow> ustr list \<Rightarrow> ustr \<Rightarrow> ustr list \<Rightarrow> ustr list" where
  "chunk_loop mx chunks cur [] = (if cur \<noteq> [] then chunks @ [cur] else chunks)"
| "chunk_loop mx chunks cur (p # ps) =
     (if int (length cur) + int (length p) > mx \<and> cur \<noteq> []
      then chunk_loop mx (chunks @ [cur]) ([] @ p) ps
      else chunk_loop mx chunks (cur @ p) ps)"

definition chunk_paragraphs :: "tables \<Rightarrow> int \<Rightarrow> ustr \<Rightarrow> ustr list" where
  "chunk_paragraphs T mx text = chunk_loop mx [] [] (re_split T PARA_SPLIT_RE text)"

section \<open>The pipeline\<close>

text \<open>
  \<open>call_lt\<close> is the grammar service: it takes the state of the world and the chunk, and
  either raises (connection failure, timeout, a status that \<open>raise_for_status\<close> rejects,
  a body that is not JSON) or returns \<open>resp.get("matches", [])\<close>. The \<open>try\<close> of \<open>main\<close>
  also covers \<open>apply_misspellings_only\<close>. The diagnostic goes to the error stream.
\<close>

definition err_str :: "error \<Rightarrow> ustr" where
  "err_str e = (case e of KeyError k \<Rightarrow> asc [CHR 0x27] @ k @ asc [CHR 0x27] | ServiceError m \<Rightarrow> m)"

definition diagnostic :: "error \<Rightarrow> ustr" where
  "diagnostic e = asc ''[SpellFix error] '' @ err_str e"

type_synonym 'w service = "'w \<Rightarrow> ustr \<Rightarrow> (error + lt_match list) \<times> 'w"

fun process_chunks ::
  "tables \<Rightarrow> 'w service \<Rightarrow> 'w \<Rightarrow> ustr list \<Rightarrow> ustr list \<times> ustr list \<times> 'w" where
  "process_chunks T call_lt w [] = ([], [], w)"
| "process_chunks T call_lt w (ch # chs) =
     (let (resp, w1) = call_lt w ch;
          (ch', err) = (case resp of
                          Inl e \<Rightarrow> (ch, [diagnostic e])
                        | Inr matches \<Rightarrow>
                           (case apply_misspellings_only T ch matches of
                              Inl e \<Rightarrow> (ch, [diagnostic e])
                            | Inr t \<Rightarrow> (t, [])));
          (out_chunks, errs, w2) = process_chunks T call_lt w1 chs
      in (ch' # out_chunks, err @ errs, w2))"

record 'w outcome =
  stdout :: ustr
  stderr :: "ustr list"
  world :: 'w
  exit_code :: int

definition main :: "tables \<Rightarrow> int \<Rightarrow> 'w service \<Rightarrow> 'w \<Rightarrow> ustr \<Rightarrow> 'w outcome" where
  "main T mx call_lt w raw =
     (if list_all (is_space T) raw
      then \<lparr>stdout = [], stderr = [], world = w, exit_code = 0\<rparr>
      else
        let (safe, protected) = protect T raw;
            safe = fix_dot_joined_words T safe;
            safe = safe_spacing_cleanup T safe;
            safe = iphone_like_caps T safe;
            chunks = (if int (length safe) > mx then chunk_paragraphs T mx safe else [safe]);
            (out_chunks, errs, w') = process_chunks T call_lt w chunks;
            out = concat out_chunks;
            out = unprotect out protected;
            out = normalize_brands T out
        in \<lparr>stdout = out, stderr = errs, world = w', exit_code = 0\<rparr>)"

section \<open>Protection round trip\<close>

text \<open>
  Evaluation of the model on a concrete text is by rewriting with the definitions; the
  result does not depend on the tables \<open>T\<close> when the text is ASCII and U+E000.
\<close>

lemma placeholder_0: "PLACEHOLDER_FMT 0 = [57344, 48, 57344]"
  by (simp add: PLACEHOLDER_FMT_def dec.simps)

lemma placeholder_1: "PLACEHOLDER_FMT (Suc 0) = [57344, 49, 57344]" "PLACEHOLDER_FMT 1 = [57344, 49, 57344]"
  by (simp_all add: PLACEHOLDER_FMT_def dec.simps)

lemmas eval_defs = sub_def re_sub_st_def re_sub_def repl_def dict_set_def placeholder_0 placeholder_1
  BRAND_RE_def BRANDS_def URL_RE_def EMAIL_RE_def PATH_RE_def FLAG_RE_def DOT_IDENT_RE_def
  CAMEL_RE_def SNAKE_RE_def KEBAB_RE_def PROSE_DOT_JOIN_RE_def
  lit_def asc_def cp_def memb_def variants_def is_word_def is_space_def is_digit_def
  private_use_def word_opt_def at_boundary_def Let_def

lemma brand_stage:
  "sub T BRAND_RE (asc ''/SpellFix'', ([], 0))
   = (asc ''/'' @ PLACEHOLDER_FMT 0, ([(PLACEHOLDER_FMT 0, asc ''SpellFix'')], 1))"
  by (simp add: eval_defs)

lemma url_email_stage:
  "fold (sub T) [URL_RE, EMAIL_RE] (asc ''/'' @ PLACEHOLDER_FMT 0, ([(PLACEHOLDER_FMT 0, asc ''SpellFix'')], 1))
   = (asc ''/'' @ PLACEHOLDER_FMT 0, ([(PLACEHOLDER_FMT 0, asc ''SpellFix'')], 1))"
  by (simp add: eval_defs)

lemma path_stage:
  "sub T PATH_RE (asc ''/'' @ PLACEHOLDER_FMT 0, ([(PLACEHOLDER_FMT 0, asc ''SpellFix'')], 1))
   = (PLACEHOLDER_FMT 1,
      ([(PLACEHOLDER_FMT 0, asc ''SpellFix''), (PLACEHOLDER_FMT 1, asc ''/'' @ PLACEHOLDER_FMT 0)], 2))"
  by (simp add: eval_defs)

lemma later_stages:
  "fold (sub T) [FLAG_RE, DOT_IDENT_RE, CAMEL_RE, SNAKE_RE, KEBAB_RE]
     (PLACEHOLDER_FMT 1,
      ([(PLACEHOLDER_FMT 0, asc ''SpellFix''), (PLACEHOLDER_FMT 1, asc ''/'' @ PLACEHOLDER_FMT 0)], 2))
   = (PLACEHOLDER_FMT 1,
      ([(PLACEHOLDER_FMT 0, asc ''SpellFix''), (PLACEHOLDER_FMT 1, asc ''/'' @ PLACEHOLDER_FMT 0)], 2))"
  by (simp add: eval_defs)

lemma protect_path_with_brand:
  "protect T (asc ''/SpellFix'')
   = (PLACEHOLDER_FMT 1,
      [(PLACEHOLDER_FMT 0, asc ''SpellFix''), (PLACEHOLDER_FMT 1, asc ''/'' @ PLACEHOLDER_FMT 0)])"
proof -
  have "fold (sub T) [URL_RE, EMAIL_RE, PATH_RE, FLAG_RE, DOT_IDENT_RE, CAMEL_RE, SNAKE_RE, KEBAB_RE]
          (sub T BRAND_RE (asc ''/SpellFix'', ([], 0)))
        = fold (sub T) [FLAG_RE, DOT_IDENT_RE, CAMEL_RE, SNAKE_RE, KEBAB_RE]
            (sub T PATH_RE (fold (sub T) [URL_RE, EMAIL_RE] (sub T BRAND_RE (asc ''/SpellFix'', ([], 0)))))"
    by simp
  also have "\<dots> = (PLACEHOLDER_FMT 1,
      ([(PLACEHOLDER_FMT 0, asc ''SpellFix''), (PLACEHOLDER_FMT 1, asc ''/'' @ PLACEHOLDER_FMT 0)], 2))"
    by (simp only: brand_stage url_email_stage path_stage later_stages)
  finally show ?thesis
    by (simp add: protect_def Let_def)
qed

lemma unprotect_path_with_brand:
  "unprotect (PLACEHOLDER_FMT 1)
     [(PLACEHOLDER_FMT 0, asc ''SpellFix''), (PLACEHOLDER_FMT 1, asc ''/'' @ PLACEHOLDER_FMT 0)]
   = asc ''/'' @ PLACEHOLDER_FMT 0"
  by (simp add: unprotect_def placeholder_0 placeholder_1 asc_def cp_def)

lemma funpow_8: "(f ^^ 8) x = f (f (f (f (f (f (f (f x)))))))"
  by (simp add: eval_nat_numeral)

lemma rewrite_placeholder:
  "iphone_like_caps T (safe_spacing_cleanup T (fix_dot_joined_words T (PLACEHOLDER_FMT 1)))
   = PLACEHOLDER_FMT 1"
  by (simp add: eval_defs iphone_like_caps_def safe_spacing_cleanup_def fix_dot_joined_words_def
      ELLIPSIS_RE_def SPACE_BEFORE_PUNCT_RE_def SPACE_AFTER_PUNCT_RE_def SPACE_AFTER_DOT_RE_def
      MULTISPACE_RE_def funpow_8)

lemma normalize_unresolved:
  "normalize_brands T (asc ''/'' @ PLACEHOLDER_FMT 0) = asc ''/'' @ PLACEHOLDER_FMT 0"
  by (simp add: eval_defs normalize_brands_def)

lemma not_blank: "\<not> list_all (is_space T) (asc ''/SpellFix'')"
  by (simp add: asc_def cp_def is_space_def)

text \<open>
  C1. After \<open>protect\<close>, \<open>unprotect\<close> is to give the text back. On the path
  \<open>/SpellFix\<close> it does not: the brand is replaced by the placeholder number 0, then
  \<open>PATH_RE\<close> takes the slash and that placeholder as one path and replaces both by the
  placeholder number 1. \<open>unprotect\<close> goes through the dictionary in insertion order: it
  looks for the placeholder number 0 first, which is not in the text, and then puts
  back the value of the placeholder number 1, which holds the placeholder number 0.
  The whole pipeline writes the same text, with the placeholder in it, when the service
  reports no match.
\<close>

theorem protect_unprotect_leaves_placeholder:
  "unprotect (fst (protect T (asc ''/SpellFix''))) (snd (protect T (asc ''/SpellFix'')))
     = asc ''/'' @ PLACEHOLDER_FMT 0
   \<and> stdout (main T 1200 (\<lambda>w c. (Inr [], w)) w (asc ''/SpellFix'')) = asc ''/'' @ PLACEHOLDER_FMT 0"
proof
  show "unprotect (fst (protect T (asc ''/SpellFix''))) (snd (protect T (asc ''/SpellFix'')))
     = asc ''/'' @ PLACEHOLDER_FMT 0"
    by (simp only: protect_path_with_brand fst_conv snd_conv unprotect_path_with_brand)
  have len: "\<not> int (length (PLACEHOLDER_FMT 1)) > 1200"
    by (simp add: placeholder_1)
  have run: "process_chunks T (\<lambda>w c. (Inr [], w)) w [PLACEHOLDER_FMT 1] = ([PLACEHOLDER_FMT 1], [], w)"
    by (simp add: apply_misspellings_only_def)
  show "stdout (main T 1200 (\<lambda>w c. (Inr [], w)) w (asc ''/SpellFix'')) = asc ''/'' @ PLACEHOLDER_FMT 0"
    unfolding main_def
    by (simp only: not_blank if_False protect_path_with_brand Let_def prod.case rewrite_placeholder
        len run concat.simps append_Nil2 unprotect_path_with_brand normalize_unresolved
        outcome.simps)
qed

text \<open>
  C2. A span replaced by a placeholder is never to be matched again by a later
  pattern, and no key is to occur in a value of the dictionary. On \<open>/SpellFix\<close>, after
  the brand pattern, the path pattern matches the slash together with the placeholder
  number 0: that key is no longer in the protected text, and it is inside the value of
  the placeholder number 1.
\<close>

theorem placeholder_rematched_by_path_pattern:
  "sub T BRAND_RE (asc ''/SpellFix'', ([], 0))
     = (asc ''/'' @ PLACEHOLDER_FMT 0, ([(PLACEHOLDER_FMT 0, asc ''SpellFix'')], 1))
   \<and> sub T PATH_RE (asc ''/'' @ PLACEHOLDER_FMT 0, ([(PLACEHOLDER_FMT 0, asc ''SpellFix'')], 1))
     = (PLACEHOLDER_FMT 1,
        ([(PLACEHOLDER_FMT 0, asc ''SpellFix''),
          (PLACEHOLDER_FMT 1, asc ''/'' @ PLACEHOLDER_FMT 0)], 2))
   \<and> protect T (asc ''/SpellFix'')
     = (PLACEHOLDER_FMT 1,
        [(PLACEHOLDER_FMT 0, asc ''SpellFix''),
         (PLACEHOLDER_FMT 1, asc ''/'' @ PLACEHOLDER_FMT 0)])"
  by (simp only: brand_stage path_stage protect_path_with_brand)

section \<open>Dot-joined words\<close>

text \<open>
  C3. \<open>fix_dot_joined_words\<close> is to leave domain-like strings alone. The patterns
  \<open>DOMAIN_LIKE_RE\<close>, \<open>IP_RE\<close>, \<open>VERSION_RE\<close> and \<open>ABBREV_RE\<close> are defined and never
  used: the function substitutes \<open>PROSE_DOT_JOIN_RE\<close> and nothing else, so
  \<open>example.com\<close>, which no protection pattern matches, is split like \<open>word.another\<close>.
\<close>

theorem domain_like_string_is_split:
  "fix_dot_joined_words T (asc ''Visit example.com today'') = asc ''Visit example com today''
   \<and> fix_dot_joined_words T (asc ''word.another'') = asc ''word another''"
  by (simp add: eval_defs fix_dot_joined_words_def funpow_8)

section \<open>The patch applier\<close>






text \<open>
  C5. A misspelling match whose first replacement equals the targeted substring after
  lowercasing, and differs from it as it is, is skipped: the s and the shift stay,
  and the loop goes on as if the match were absent.
\<close>

theorem case_only_skip:
  "issueType m = Some (asc ''misspelling'') \<Longrightarrow> replacements m = Some r # rs \<Longrightarrow>
   offset m = Some off \<Longrightarrow> mlength m = Some len \<Longrightarrow>
   orig = slice s (off + shift) (off + shift + len) \<Longrightarrow>
   ulower T orig = ulower T r \<Longrightarrow> orig \<noteq> r \<Longrightarrow>
   apply_match T (s, shift) m = Inr (s, shift)
   \<and> apply_loop T (s, shift) (m # ms) = apply_loop T (s, shift) ms"
  by (simp add: apply_match_def Let_def)

theorem case_only_skip_witness:
  "apply_loop ascii_tables (asc ''Hello'', 0)
     [\<lparr>issueType = Some (asc ''misspelling''), replacements = [Some (asc ''hello'')],
        offset = Some 0, mlength = Some 5\<rparr>] = Inr (asc ''Hello'')"
  using case_only_skip [where
      m = "\<lparr>issueType = Some (asc ''misspelling''), replacements = [Some (asc ''hello'')],
        offset = Some 0, mlength = Some 5\<rparr>" and r = "asc ''hello''" and rs = "[]"
      and off = 0 and len = 5 and orig = "asc ''Hello''" and s = "asc ''Hello''" and shift = 0
      and T = ascii_tables and ms = "[]"]
  by (simp add: asc_def cp_def ascii_tables_def ascii_lower_def slice_def py_bound_def)



text \<open>
  C6. A match whose span overlaps a placeholder is to be skipped. The loop skips a span
  that contains the delimiter U+E000; a span over the digits between the two
  delimiters contains none, and the edit is applied: the placeholder number 0 becomes
  the placeholder number 1.
\<close>

theorem placeholder_digits_overwritten:
  "apply_misspellings_only ascii_tables (PLACEHOLDER_FMT 0)
     [\<lparr>issueType = Some (asc ''misspelling''), replacements = [Some (asc ''1'')],
        offset = Some 1, mlength = Some 1\<rparr>] = Inr (PLACEHOLDER_FMT 1)"
  by (simp add: apply_misspellings_only_def apply_match_def PLACEHOLDER_FMT_def Let_def slice_def slice_to_def slice_from_def py_bound_def asc_def cp_def ascii_tables_def ascii_lower_def)

section \<open>Failure of the service for one chunk\<close>


lemma process_chunks_length:
  "length (fst (process_chunks T call_lt w chunks)) = length chunks"
proof (induction chunks arbitrary: w)
  case Nil
  then show ?case by simp
next
  case (Cons c cs)
  obtain resp w1 where c: "call_lt w c = (resp, w1)"
    by (cases "call_lt w c")
  obtain o2 d2 w2 where r: "process_chunks T call_lt w1 cs = (o2, d2, w2)"
    by (cases "process_chunks T call_lt w1 cs")
  from Cons [of w1] r have "length o2 = length cs"
    by simp
  with c r show ?case
    by (simp add: Let_def split: prod.splits sum.splits)
qed



end
